theory Spec2Isabelle
  imports Main "HOL-Library.Word"
begin

unbundle bit_operations_syntax

section \<open>Error values\<close>

text \<open>
  \<open>boost::system::error_code\<close> as the sources use it: a value that converts to
  \<open>false\<close> exactly when it carries no error, and that is compared with
  \<open>boost::asio::error::would_block\<close> and \<open>boost::asio::error::operation_aborted\<close>.
  Every other error value is \<open>other_error n\<close>.
\<close>

datatype error_code = no_error | would_block | operation_aborted | other_error nat

definition is_error :: "error_code \<Rightarrow> bool" where
  "is_error ec = (ec \<noteq> no_error)"

text \<open>
  The library's own error codes (\<open>error::codes::SUCCESS\<close>, \<open>ABORTED\<close>, \<open>FAILED_OPERATION\<close>,
  \<open>ENCODING\<close>, \<open>DECODING\<close> in \<open>Closeable.h\<close> and \<open>Message.h\<close>; \<open>error::failedOperation\<close> and
  \<open>error::invalidFrame\<close> in \<open>Stream.h\<close> name the same kind of value). \<open>Error.h\<close> is not among
  the sources; the conversion to \<open>bool\<close> used by \<open>if (error)\<close> is true for every code but
  \<open>SUCCESS\<close>.
\<close>

datatype ErrorCode = SUCCESS | ABORTED | FAILED_OPERATION | INVALID_FRAME | ENCODING | DECODING

definition failed :: "ErrorCode \<Rightarrow> bool" where
  "failed code = (code \<noteq> SUCCESS)"

text \<open>The exception classes thrown by the synchronous wrappers.\<close>

datatype error = Aborted | FailedOperation | Encoding | Decoding

section \<open>Asynchronous control flow\<close>

type_synonym bytes = "8 word list"

text \<open>
  Modelled from the spec: \<open>time::Duration\<close> and \<open>time::TimePoint\<close> (\<open>Time.h\<close> is not among
  the sources) are monotonic clock values: signed 64-bit tick counts, as those of
  \<open>std::chrono\<close>. Their arithmetic wraps around; \<open>sint\<close> reads the signed value.
\<close>

type_synonym Duration = "64 word"

type_synonym TimePoint = "64 word"

text \<open>
  The transport I/O that a timed operation submits: a connect, a write of the given
  buffers, or a read with \<open>boost::asio::transfer_exactly(n)\<close>.
\<close>

datatype io_op = Connect string nat | Write bytes | ReadExactly nat

text \<open>
  What the completion handler of a submitted I/O observes when the executor runs it: the
  error code the I/O reported, whether the transport is open at that moment (the timer
  handler, serialised with the completion handler, closes it on expiry), and the bytes
  that were transferred; \<open>numBytesTransferred\<close> is their number.
\<close>

record completion =
  opError :: error_code
  is_open :: bool
  transferred :: bytes

text \<open>
  The body of a function or of a closure is a sequence of statements. \<open>Return\<close> ends it.
  \<open>Invoke code r\<close> calls the user handler with \<open>code\<close> and \<open>r\<close> and goes on. \<open>Post task\<close> is
  \<open>net.callLater\<close>: it hands the closure \<open>task\<close> to the executor and goes on. \<open>TimedIO op
  timeout k\<close> arms the deadline timer with \<open>timeout\<close>, submits the I/O \<open>op\<close> with the
  completion handler \<open>k\<close> and goes on. \<open>Now\<close> reads the clock (\<open>time::now()\<close>) and goes on
  with the value read.
\<close>

datatype 'r proc =
    Return
  | Invoke ErrorCode 'r "'r proc"
  | Post "'r proc" "'r proc"
  | TimedIO io_op Duration "completion \<Rightarrow> 'r proc" "'r proc"
  | Now "TimePoint \<Rightarrow> 'r proc"

text \<open>
  \<open>seq p q\<close> is the call of \<open>p\<close> followed by the statements \<open>q\<close>: when the body \<open>p\<close>
  returns, \<open>q\<close> goes on. The closures that \<open>p\<close> handed to the executor stay with it.
\<close>

primrec seq :: "'r proc \<Rightarrow> 'r proc \<Rightarrow> 'r proc" where
  "seq Return q = q"
| "seq (Invoke code r p) q = Invoke code r (seq p q)"
| "seq (Post task p) q = Post task (seq p q)"
| "seq (TimedIO op timeout k p) q = TimedIO op timeout k (seq p q)"
| "seq (Now k) q = Now (\<lambda>t. seq (k t) q)"

text \<open>
  What can be observed of a run: a call of the user handler, a closure handed to the
  executor, an I/O submitted with its timeout, and a reading of the clock.
\<close>

datatype 'r event =
    Called ErrorCode 'r
  | Scheduled
  | Started io_op Duration
  | Clock TimePoint

text \<open>
  Running a body against an environment: \<open>clk n\<close> is the \<open>n\<close>-th reading of the clock and
  \<open>io n\<close> the completion of the \<open>n\<close>-th submitted I/O. The state counts the readings and
  the submissions made so far. The executor dispatches every closure it was handed and
  every submitted I/O completes once; a closure runs after the body that handed it over
  has returned. In the sources a body hands over at most one closure and then returns, so
  that the order among several pending closures plays no role; here the closures of the
  rest of the body run first.
\<close>

primrec steps ::
  "'r proc \<Rightarrow> (nat \<Rightarrow> TimePoint) \<Rightarrow> (nat \<Rightarrow> completion) \<Rightarrow> nat \<times> nat \<Rightarrow> 'r event list \<times> (nat \<times> nat)" where
  "steps Return = (\<lambda>clk io st. ([], st))"
| "steps (Invoke code r p) =
     (\<lambda>clk io st. case steps p clk io st of (es, st') \<Rightarrow> (Called code r # es, st'))"
| "steps (Post task p) =
     (\<lambda>clk io st.
        case steps p clk io st of (es, st') \<Rightarrow>
          (case steps task clk io st' of (es', st'') \<Rightarrow> (Scheduled # es @ es', st'')))"
| "steps (TimedIO op timeout k p) =
     (\<lambda>clk io st.
        case steps p clk io (fst st, Suc (snd st)) of (es, st') \<Rightarrow>
          (case steps (k (io (snd st))) clk io st' of (es', st'') \<Rightarrow>
             (Started op timeout # es @ es', st'')))"
| "steps (Now k) =
     (\<lambda>clk io st.
        case steps (k (clk (fst st))) clk io (Suc (fst st), snd st) of (es, st') \<Rightarrow>
          (Clock (clk (fst st)) # es, st'))"

definition run :: "'r proc \<Rightarrow> (nat \<Rightarrow> TimePoint) \<Rightarrow> (nat \<Rightarrow> completion) \<Rightarrow> 'r event list" where
  "run p clk io = fst (steps p clk io (0, 0))"

text \<open>
  What the submitting call itself does before it returns to the executor: the closures it
  hands over are not run.
\<close>

primrec submit_steps ::
  "'r proc \<Rightarrow> (nat \<Rightarrow> TimePoint) \<Rightarrow> nat \<Rightarrow> 'r event list" where
  "submit_steps Return = (\<lambda>clk i. [])"
| "submit_steps (Invoke code r p) = (\<lambda>clk i. Called code r # submit_steps p clk i)"
| "submit_steps (Post task p) = (\<lambda>clk i. Scheduled # submit_steps p clk i)"
| "submit_steps (TimedIO op timeout k p) = (\<lambda>clk i. Started op timeout # submit_steps p clk i)"
| "submit_steps (Now k) = (\<lambda>clk i. Clock (clk i) # submit_steps (k (clk i)) clk (Suc i))"

definition submit :: "'r proc \<Rightarrow> (nat \<Rightarrow> TimePoint) \<Rightarrow> 'r event list" where
  "submit p clk = submit_steps p clk 0"

fun is_Called :: "'r event \<Rightarrow> bool" where
  "is_Called (Called code r) = True"
| "is_Called Scheduled = False"
| "is_Called (Started op timeout) = False"
| "is_Called (Clock t) = False"

section \<open>Closeable.h\<close>

text \<open>
  \<open>timedAsyncOperation\<close> starts the timer, submits the I/O and returns. The completion
  lambda stops the timer, classifies the outcome and calls
  \<open>handler(errorCode, opError, remainingHandlerArgs...)\<close>; the remaining argument of a read
  or write is the transferred byte count, carried here by the bytes.
\<close>

definition timedAsyncOperation ::
  "io_op \<Rightarrow> Duration \<Rightarrow> (ErrorCode \<Rightarrow> error_code \<Rightarrow> bytes \<Rightarrow> 'r proc) \<Rightarrow> 'r proc" where
  "timedAsyncOperation asyncOperation timeout handler =
     TimedIO asyncOperation timeout (\<lambda>c.
       let errorCode = SUCCESS;
           errorCode = (if \<not> is_open c then ABORTED
                        else if is_error (opError c) then FAILED_OPERATION
                        else errorCode)
       in seq (handler errorCode (opError c) (transferred c)) Return)
     Return"

text \<open>
  \<open>timedOperation\<close>: \<open>closeableError\<close> is initialised to \<open>would_block\<close>; the completion
  lambda captures it by reference but only stores \<open>(error, remainingHandlerArgs...)\<close> in
  \<open>result\<close>. After the wait the function tests \<open>closeableError\<close> and the transport. The
  result is the thrown exception or the stored tuple.
\<close>

definition timedOperation :: "completion \<Rightarrow> error + (error_code \<times> bytes)" where
  "timedOperation c =
     (let closeableError = would_block;
          result = (opError c, transferred c)
      in if is_error closeableError \<or> \<not> is_open c
         then (if closeableError = operation_aborted then Inl Aborted
               else Inl FailedOperation)
         else Inr result)"

subsection \<open>The Closer guard\<close>

text \<open>
  A \<open>Closer\<close> holds a reference to its transport and the flag \<open>alive\<close>. A reference is
  bound once: \<open>closeable\<close> is the identity of the transport the guard was built on.
\<close>

record Closer =
  closeable :: nat
  alive :: bool

text \<open>
  The objects of a scope: the guards by name, the transports (open or not), and the calls
  of \<open>close\<close> made so far, each recorded with its transport.
\<close>

record scope =
  closers :: "nat \<Rightarrow> Closer option"
  transports :: "nat \<Rightarrow> bool"
  close_calls :: "nat list"

definition empty_scope :: scope where
  "empty_scope = \<lparr>closers = (\<lambda>x. None), transports = (\<lambda>t. True), close_calls = []\<rparr>"

text \<open>\<open>Closer::close\<close> calls \<open>closeable.close(ignoredError)\<close>.\<close>

definition close :: "nat \<Rightarrow> scope \<Rightarrow> scope" where
  "close t s = s\<lparr>transports := (transports s)(t := False), close_calls := close_calls s @ [t]\<rparr>"

text \<open>
  What a program does with guards: \<open>Closer x{t}\<close>, \<open>Closer x{std::move(other)}\<close>,
  \<open>x = std::move(other)\<close>, and the end of the lifetime of \<open>x\<close>. A statement that names an
  object which does not exist, or declares one that does, is not a program: \<open>None\<close>.
\<close>

datatype stmt = Construct nat nat | MoveConstruct nat nat | MoveAssign nat nat | Destroy nat

text \<open>
  The constructor sets the reference and leaves \<open>alive\<close> at its initialiser \<open>true\<close>. The move
  constructor copies the reference, leaves its own \<open>alive\<close> at the initialiser \<open>true\<close> and clears
  \<open>other.alive\<close>. The move assignment assigns through the reference (the transport of the
  target takes the value of the other transport), copies \<open>other.alive\<close> and then clears it.
  The destructor closes when \<open>alive\<close>.
\<close>

fun exec :: "stmt \<Rightarrow> scope \<Rightarrow> scope option" where
  "exec (Construct x t) s =
     (case closers s x of
        Some c \<Rightarrow> None
      | None \<Rightarrow> Some (s\<lparr>closers := (closers s)(x := Some \<lparr>closeable = t, alive = True\<rparr>)\<rparr>))"
| "exec (MoveConstruct x other) s =
     (case (closers s x, closers s other) of
        (None, Some oth) \<Rightarrow>
          Some (s\<lparr>closers := (closers s)
                  (x := Some \<lparr>closeable = closeable oth, alive = True\<rparr>,
                   other := Some (oth\<lparr>alive := False\<rparr>))\<rparr>)
      | _ \<Rightarrow> None)"
| "exec (MoveAssign x other) s =
     (case (closers s x, closers s other) of
        (Some this, Some oth) \<Rightarrow>
          (let s = s\<lparr>transports := (transports s)(closeable this := transports s (closeable oth))\<rparr>;
               s = s\<lparr>closers := (closers s)(x := Some (this\<lparr>alive := alive oth\<rparr>))\<rparr>
           in case closers s other of
                Some oth \<Rightarrow> Some (s\<lparr>closers := (closers s)(other := Some (oth\<lparr>alive := False\<rparr>))\<rparr>)
              | None \<Rightarrow> None)
      | _ \<Rightarrow> None)"
| "exec (Destroy x) s =
     (case closers s x of
        None \<Rightarrow> None
      | Some this \<Rightarrow>
          (let s = (if alive this then close (closeable this) s else s)
           in Some (s\<lparr>closers := (closers s)(x := None)\<rparr>)))"

fun exec_all :: "stmt list \<Rightarrow> scope \<Rightarrow> scope option" where
  "exec_all [] s = Some s"
| "exec_all (st # sts) s = (case exec st s of None \<Rightarrow> None | Some s' \<Rightarrow> exec_all sts s')"

section \<open>Frame.h and Utils.h\<close>

text \<open>
  Modelled from the spec: \<open>Frame::HEADER_SIZE\<close> (\<open>Frame.h\<close> is not among the sources).
  The length prefix of a frame is 4 bytes.
\<close>

definition HEADER_SIZE :: nat where
  "HEADER_SIZE = 4"

text \<open>
  Modelled from the spec: \<open>utils::toBigEndian\<close> and \<open>utils::fromBigEndian<4, std::uint32_t>\<close>
  (\<open>Utils.h\<close> is not among the sources). The length is an unsigned 32-bit value in network
  byte order; \<open>fromBigEndian\<close> reads the first four bytes it is given.
\<close>

definition toBigEndian :: "32 word \<Rightarrow> bytes" where
  "toBigEndian w = [ucast (drop_bit 24 w), ucast (drop_bit 16 w), ucast (drop_bit 8 w), ucast w]"

definition fromBigEndian :: "bytes \<Rightarrow> 32 word" where
  "fromBigEndian bs = foldl (\<lambda>acc b. push_bit 8 acc OR ucast b) 0 (take 4 bs)"

text \<open>
  Modelled from the spec: \<open>Frame::getBuffers\<close> and \<open>Frame::getSize\<close> of the frame built
  from the payload (\<open>Frame.h\<close> is not among the sources). The wire bytes are the big-endian
  32-bit payload length followed by the payload, and the size counts header and payload.
\<close>

definition getBuffers :: "bytes \<Rightarrow> bytes" where
  "getBuffers writeData = toBigEndian (word_of_nat (length writeData)) @ writeData"

definition getSize :: "bytes \<Rightarrow> nat" where
  "getSize writeData = HEADER_SIZE + length writeData"

text \<open>
  Modelled from the spec: \<open>utils::stringFromStreambuf(streambuf, n)\<close> (\<open>Utils.h\<close> is not
  among the sources). It takes \<open>n\<close> bytes from the front of the buffer, consuming them; the
  result is the string and the buffer that remains.
\<close>

definition stringFromStreambuf :: "bytes \<Rightarrow> nat \<Rightarrow> bytes \<times> bytes" where
  "stringFromStreambuf streambuf n = (take n streambuf, drop n streambuf)"

section \<open>Stream.h\<close>

definition numDataBytesFromBuffer :: "bytes \<Rightarrow> 32 word \<times> bytes" where
  "numDataBytesFromBuffer streambuf =
     (let (numDataBytesStr, streambuf) = stringFromStreambuf streambuf 4
      in (fromBigEndian numDataBytesStr, streambuf))"

text \<open>
  The handlers that \<open>Stream.h\<close> passes to \<open>timedAsyncOperation\<close> take
  \<open>(error, numBytesTransferred)\<close>: \<open>error\<close> is the classified code that
  \<open>timedAsyncOperation\<close> computed, and \<open>numBytesTransferred\<close> the count the I/O reported.
\<close>

definition asyncWrite :: "bytes \<Rightarrow> Duration \<Rightarrow> (ErrorCode \<Rightarrow> 'r proc) \<Rightarrow> 'r proc" where
  "asyncWrite writeData timeout handler =
     (let buffers = getBuffers writeData
      in seq (timedAsyncOperation (Write buffers) timeout (\<lambda>error opError transferred.
                let numBytesTransferred = length transferred
                in if numBytesTransferred < getSize writeData
                   then seq (handler FAILED_OPERATION) Return
                   else seq (handler error) Return))
             Return)"

text \<open>
  \<open>asyncRead\<close>: the stream buffer is the caller's; each read appends the bytes it
  transferred, and the header and the payload are consumed from its front.
\<close>

definition asyncRead ::
  "bytes \<Rightarrow> Duration \<Rightarrow> (ErrorCode \<Rightarrow> bytes \<Rightarrow> 'r proc) \<Rightarrow> 'r proc" where
  "asyncRead buffer timeout handler =
     Now (\<lambda>startTime.
       seq (timedAsyncOperation (ReadExactly HEADER_SIZE) timeout (\<lambda>error opError transferred.
         let buffer = buffer @ transferred;
             numBytesTransferred = length transferred;
             data = []
         in if failed error then seq (handler error data) Return
            else if numBytesTransferred \<noteq> HEADER_SIZE then seq (handler INVALID_FRAME data) Return
            else
              let (numDataBytes, buffer) = numDataBytesFromBuffer buffer
              in if numDataBytes = 0 then seq (handler error data) Return
                 else
                   Now (\<lambda>now.
                     let timeSpend = now - startTime;
                         newTimeout = timeout - timeSpend
                     in seq (timedAsyncOperation (ReadExactly (unat numDataBytes)) newTimeout
                          (\<lambda>error opError transferred.
                             let buffer = buffer @ transferred;
                                 numBytesTransferred = length transferred;
                                 data = []
                             in if failed error then seq (handler error data) Return
                                else if numBytesTransferred \<noteq> unat numDataBytes
                                  then seq (handler INVALID_FRAME data) Return
                                else
                                  let (data, buffer) =
                                        stringFromStreambuf buffer (unat numDataBytes)
                                  in seq (handler error data) Return))
                        Return)))
       Return)"

section \<open>Message.h\<close>

text \<open>
  A user \<open>Encoder<Message>\<close> or \<open>Decoder<Message>\<close> either returns a value or throws
  (\<open>None\<close>). \<open>internal::encode\<close> and \<open>internal::decode\<close> catch everything: they return
  \<open>false\<close> (\<open>None\<close>) when the functor threw and otherwise \<open>true\<close> with the output set.
\<close>

definition encode :: "('m \<Rightarrow> bytes option) \<Rightarrow> 'm \<Rightarrow> bytes option" where
  "encode Encoder message = (case Encoder message of Some data \<Rightarrow> Some data | None \<Rightarrow> None)"

definition decode :: "(bytes \<Rightarrow> 'm option) \<Rightarrow> bytes \<Rightarrow> 'm option" where
  "decode Decoder data = (case Decoder data of Some message \<Rightarrow> Some message | None \<Rightarrow> None)"

text \<open>\<open>Encoder<std::string>\<close> and \<open>Decoder<std::string>\<close> copy their argument.\<close>

definition Encoder_string :: "bytes \<Rightarrow> bytes option" where
  "Encoder_string message = Some message"

definition Decoder_string :: "bytes \<Rightarrow> bytes option" where
  "Decoder_string data = Some data"

definition asyncSend ::
  "('m \<Rightarrow> bytes option) \<Rightarrow> 'm \<Rightarrow> Duration \<Rightarrow> (ErrorCode \<Rightarrow> 'r proc) \<Rightarrow> 'r proc" where
  "asyncSend Encoder message timeout handler =
     (case encode Encoder message of
        None \<Rightarrow> Post (seq (handler ENCODING) Return) Return
      | Some data \<Rightarrow>
          seq (asyncWrite data timeout (\<lambda>errorCode. seq (handler errorCode) Return)) Return)"

text \<open>
  A received message is a \<open>std::shared_ptr<Message>\<close>: \<open>None\<close> is the null pointer that
  the handler gets when decoding failed.
\<close>

definition asyncReceive ::
  "(bytes \<Rightarrow> 'm option) \<Rightarrow> bytes \<Rightarrow> Duration \<Rightarrow> (ErrorCode \<Rightarrow> 'm option \<Rightarrow> 'r proc) \<Rightarrow>
   'r proc" where
  "asyncReceive Decoder buffer timeout handler =
     seq (asyncRead buffer timeout (\<lambda>errorCode data.
            case decode Decoder data of
              None \<Rightarrow> seq (handler DECODING None) Return
            | Some message \<Rightarrow> seq (handler errorCode (Some message)) Return))
         Return"

text \<open>
  The datagram variants call \<open>socket::asyncSendTo\<close> and \<open>socket::asyncReceiveFrom\<close> of
  \<open>Socket.h\<close>, which is not among the sources: they are parameters here.
\<close>

definition asyncSendDatagram ::
  "(bytes \<Rightarrow> string \<Rightarrow> nat \<Rightarrow> Duration \<Rightarrow> (ErrorCode \<Rightarrow> 'r proc) \<Rightarrow> 'r proc) \<Rightarrow>
   ('m \<Rightarrow> bytes option) \<Rightarrow> 'm \<Rightarrow> string \<Rightarrow> nat \<Rightarrow> Duration \<Rightarrow> (ErrorCode \<Rightarrow> 'r proc) \<Rightarrow>
   'r proc" where
  "asyncSendDatagram asyncSendTo Encoder message host port timeout handler =
     (case encode Encoder message of
        None \<Rightarrow> Post (seq (handler ENCODING) Return) Return
      | Some data \<Rightarrow>
          seq (asyncSendTo data host port timeout (\<lambda>error. seq (handler error) Return)) Return)"

definition asyncReceiveDatagram ::
  "(bytes \<Rightarrow> Duration \<Rightarrow> (ErrorCode \<Rightarrow> bytes \<Rightarrow> string \<Rightarrow> nat \<Rightarrow> 'r proc) \<Rightarrow> 'r proc) \<Rightarrow>
   (bytes \<Rightarrow> 'm option) \<Rightarrow> bytes \<Rightarrow> Duration \<Rightarrow>
   (ErrorCode \<Rightarrow> 'm option \<Rightarrow> string \<Rightarrow> nat \<Rightarrow> 'r proc) \<Rightarrow> 'r proc" where
  "asyncReceiveDatagram asyncReceiveFrom Decoder buffer timeout handler =
     seq (asyncReceiveFrom buffer timeout (\<lambda>error data senderHost senderPort.
            case decode Decoder data of
              None \<Rightarrow> seq (handler DECODING None senderHost senderPort) Return
            | Some message \<Rightarrow> seq (handler error (Some message) senderHost senderPort) Return))
         Return"

section \<open>ServiceClient.h\<close>

text \<open>
  Modelled from the spec: \<open>socket::asyncConnect\<close> (\<open>Socket.h\<close> is not among the sources) is
  a timed transport primitive: the connect runs as a timed asynchronous operation and the
  handler receives its classified error.
\<close>

definition asyncConnect ::
  "string \<Rightarrow> nat \<Rightarrow> Duration \<Rightarrow> (ErrorCode \<Rightarrow> 'r proc) \<Rightarrow> 'r proc" where
  "asyncConnect host port timeout handler =
     seq (timedAsyncOperation (Connect host port) timeout
            (\<lambda>error opError transferred. seq (handler error) Return))
         Return"

text \<open>\<open>updateTimeout\<close> changes \<open>timeout\<close> and \<open>startTime\<close> in place; the clock reading is passed in.\<close>

definition updateTimeout :: "Duration \<Rightarrow> TimePoint \<Rightarrow> TimePoint \<Rightarrow> Duration \<times> TimePoint" where
  "updateTimeout timeout startTime nowTime =
     (let timeSpend = nowTime - startTime;
          startTime = nowTime;
          timeout = timeout - timeSpend
      in (timeout, startTime))"

text \<open>
  \<open>asyncCallOperation\<close>: the \<open>AsyncState\<close> holds the handler, the remaining timeout, the
  start time and a fresh receive buffer; it is shared by the three continuations. Its busy
  lock and its closer are released with it and take no part in the control flow below.
\<close>

definition asyncCallOperation ::
  "('q \<Rightarrow> bytes option) \<Rightarrow> (bytes \<Rightarrow> 'm option) \<Rightarrow>
   (ErrorCode \<Rightarrow> 'm option \<Rightarrow> 'r proc) \<Rightarrow> 'q \<Rightarrow> string \<Rightarrow> nat \<Rightarrow> Duration \<Rightarrow> 'r proc" where
  "asyncCallOperation Encoder Decoder handler request host port timeout =
     Now (\<lambda>startTime.
       let buffer = []
       in seq (asyncConnect host port timeout (\<lambda>error.
            if failed error
            then (let noResponse = None in seq (handler error noResponse) Return)
            else
              Now (\<lambda>nowTime.
                let (timeout, startTime) = updateTimeout timeout startTime nowTime
                in seq (asyncSend Encoder request timeout (\<lambda>error.
                     if failed error
                     then (let noResponse = None in seq (handler error noResponse) Return)
                     else
                       Now (\<lambda>nowTime.
                         let (timeout, startTime) = updateTimeout timeout startTime nowTime
                         in seq (asyncReceive Decoder buffer timeout (\<lambda>error response.
                                   seq (handler error response) Return))
                                Return)))
                    Return)))
           Return)"

section \<open>Observations\<close>

text \<open>The number of times the user handler is invoked in a run.\<close>

definition calls :: "'r proc \<Rightarrow> (nat \<Rightarrow> TimePoint) \<Rightarrow> (nat \<Rightarrow> completion) \<Rightarrow> nat" where
  "calls p clk io = length (filter is_Called (run p clk io))"

text \<open>The same number for a run that starts in any state of the counters.\<close>

definition calls_from ::
  "'r proc \<Rightarrow> (nat \<Rightarrow> TimePoint) \<Rightarrow> (nat \<Rightarrow> completion) \<Rightarrow> nat \<times> nat \<Rightarrow> nat" where
  "calls_from p clk io st = length (filter is_Called (fst (steps p clk io st)))"





section \<open>Running the operations\<close>

lemma seq_Return [simp]: "seq p Return = p"
  by (induction p) simp_all

lemma steps_timedAsyncOperation:
  "steps (timedAsyncOperation op timeout handler) clk io st =
     (case steps (handler (if \<not> is_open (io (snd st)) then ABORTED
                           else if opError (io (snd st)) \<noteq> no_error then FAILED_OPERATION
                           else SUCCESS)
                    (opError (io (snd st))) (transferred (io (snd st))))
             clk io (fst st, Suc (snd st)) of
        (es, st') \<Rightarrow> (Started op timeout # es, st'))"
  by (simp add: timedAsyncOperation_def is_error_def)

lemma calls_from_Return: "calls_from Return clk io st = 0"
  by (simp add: calls_from_def)

lemma calls_from_Invoke:
  "calls_from (Invoke code r p) clk io st = Suc (calls_from p clk io st)"
  by (simp add: calls_from_def case_prod_beta)

lemma calls_from_Post:
  "calls_from (Post task p) clk io st =
     calls_from p clk io st + calls_from task clk io (snd (steps p clk io st))"
  by (simp add: calls_from_def case_prod_beta)

lemma calls_from_TimedIO:
  "calls_from (TimedIO op timeout k p) clk io st =
     calls_from p clk io (fst st, Suc (snd st)) +
     calls_from (k (io (snd st))) clk io (snd (steps p clk io (fst st, Suc (snd st))))"
  by (simp add: calls_from_def case_prod_beta)

lemma calls_from_Now:
  "calls_from (Now k) clk io st = calls_from (k (clk (fst st))) clk io (Suc (fst st), snd st)"
  by (simp add: calls_from_def case_prod_beta)

lemma calls_calls_from: "calls p clk io = calls_from p clk io (0, 0)"
  by (simp add: calls_def calls_from_def run_def)

text \<open>
  Signed durations: a difference that stays within 64 bits is the difference of the signed
  values, and one that leaves them wraps around.
\<close>

lemma Duration_diff_in_range:
  fixes a b :: Duration
  assumes "- (2 ^ 63) \<le> sint a - sint b" and "sint a - sint b < 2 ^ 63"
  shows "sint (a - b) = sint a - sint b"
  using assms by (simp add: sint_word_diff signed_take_bit_int_eq_self)

lemma Duration_diff_wraps: "sint ((- 9223372036854775808 :: Duration) - 1) = 9223372036854775807"
  by simp

section \<open>Timed asynchronous operation: classification\<close>

text \<open>
  C1. For every completion of an I/O wrapped by \<open>timedAsyncOperation\<close>, the handler
  receives \<open>SUCCESS\<close> when the I/O reported no error and the transport is still open,
  \<open>ABORTED\<close> when the transport is no longer open, whatever error was reported, and
  \<open>FAILED_OPERATION\<close> when the I/O reported an error and the transport is still open.
\<close>

theorem timedAsyncOperation_classification:
  "(opError (io 0) = no_error \<and> is_open (io 0) \<longrightarrow>
      run (timedAsyncOperation op timeout (\<lambda>code ec bs. Invoke code (ec, bs) Return)) clk io
        = [Started op timeout, Called SUCCESS (opError (io 0), transferred (io 0))]) \<and>
   (\<not> is_open (io 0) \<longrightarrow>
      run (timedAsyncOperation op timeout (\<lambda>code ec bs. Invoke code (ec, bs) Return)) clk io
        = [Started op timeout, Called ABORTED (opError (io 0), transferred (io 0))]) \<and>
   (opError (io 0) \<noteq> no_error \<and> is_open (io 0) \<longrightarrow>
      run (timedAsyncOperation op timeout (\<lambda>code ec bs. Invoke code (ec, bs) Return)) clk io
        = [Started op timeout, Called FAILED_OPERATION (opError (io 0), transferred (io 0))])"
  by (simp add: run_def steps_timedAsyncOperation)

theorem timedAsyncOperation_classification_witness:
  "run (timedAsyncOperation (ReadExactly 4) 100 (\<lambda>code ec bs. Invoke code (ec, bs) Return))
       (\<lambda>n. 0) (\<lambda>n. \<lparr>opError = no_error, is_open = True, transferred = [0, 0, 0, 1]\<rparr>)
     = [Started (ReadExactly 4) 100, Called SUCCESS (no_error, [0, 0, 0, 1])] \<and>
   run (timedAsyncOperation (ReadExactly 4) 100 (\<lambda>code ec bs. Invoke code (ec, bs) Return))
       (\<lambda>n. 0) (\<lambda>n. \<lparr>opError = operation_aborted, is_open = False, transferred = []\<rparr>)
     = [Started (ReadExactly 4) 100, Called ABORTED (operation_aborted, [])] \<and>
   run (timedAsyncOperation (ReadExactly 4) 100 (\<lambda>code ec bs. Invoke code (ec, bs) Return))
       (\<lambda>n. 0) (\<lambda>n. \<lparr>opError = other_error 2, is_open = True, transferred = [0, 0]\<rparr>)
     = [Started (ReadExactly 4) 100, Called FAILED_OPERATION (other_error 2, [0, 0])]"
  using timedAsyncOperation_classification
          [where io = "\<lambda>n. \<lparr>opError = no_error, is_open = True, transferred = [0, 0, 0, 1]\<rparr>"
             and op = "ReadExactly 4" and timeout = 100 and clk = "\<lambda>n. 0"]
        timedAsyncOperation_classification
          [where io = "\<lambda>n. \<lparr>opError = operation_aborted, is_open = False, transferred = []\<rparr>"
             and op = "ReadExactly 4" and timeout = 100 and clk = "\<lambda>n. 0"]
        timedAsyncOperation_classification
          [where io = "\<lambda>n. \<lparr>opError = other_error 2, is_open = True, transferred = [0, 0]\<rparr>"
             and op = "ReadExactly 4" and timeout = 100 and clk = "\<lambda>n. 0"]
  by simp

section \<open>Deadline expiry\<close>

text \<open>
  When the timer closed the transport, the completion handler finds it closed and the I/O
  reports \<open>operation_aborted\<close>. The timed operation itself and both phases of the framed
  read hand \<open>ABORTED\<close> on, and so does the framed write when every byte of the frame had
  been transferred.
\<close>

lemma timedAsyncOperation_deadline_aborted:
  "\<not> is_open (io 0) \<Longrightarrow> opError (io 0) = operation_aborted \<Longrightarrow>
   run (timedAsyncOperation op timeout (\<lambda>code ec bs. Invoke code () Return)) clk io
     = [Started op timeout, Called ABORTED ()]"
  by (simp add: run_def steps_timedAsyncOperation)

lemma asyncRead_header_deadline_aborted:
  "\<not> is_open (io 0) \<Longrightarrow>
   run (asyncRead buffer timeout (\<lambda>code data. Invoke code data Return)) clk io
     = [Clock (clk 0), Started (ReadExactly HEADER_SIZE) timeout, Called ABORTED []]"
  by (simp add: run_def asyncRead_def steps_timedAsyncOperation failed_def)

lemma asyncRead_body_deadline_aborted:
  assumes "opError (io 0) = no_error" and "is_open (io 0)"
    and "length (transferred (io 0)) = HEADER_SIZE"
    and "fst (numDataBytesFromBuffer (buffer @ transferred (io 0))) = N" and "N \<noteq> 0"
    and "\<not> is_open (io 1)"
  shows "run (asyncRead buffer timeout (\<lambda>code data. Invoke code data Return)) clk io
     = [Clock (clk 0), Started (ReadExactly HEADER_SIZE) timeout,
        Clock (clk 1), Started (ReadExactly (unat N)) (timeout - (clk 1 - clk 0)),
        Called ABORTED []]"
  using assms
  by (simp add: run_def asyncRead_def steps_timedAsyncOperation failed_def case_prod_beta)

lemma asyncWrite_deadline_complete_write:
  "\<not> is_open (io 0) \<Longrightarrow> getSize writeData \<le> length (transferred (io 0)) \<Longrightarrow>
   run (asyncWrite writeData timeout (\<lambda>code. Invoke code () Return)) clk io
     = [Started (Write (getBuffers writeData)) timeout, Called ABORTED ()]"
  by (simp add: run_def asyncWrite_def steps_timedAsyncOperation)

text \<open>
  C2. Every operation ended by deadline expiry delivers \<open>ABORTED\<close> to the user handler,
  also on the framed \<open>asyncWrite\<close> path when the write transferred fewer bytes than the
  frame size. The handler of \<open>asyncWrite\<close> compares the byte count before it looks at
  the error: the write of the payload \<open>ping\<close> (a frame of 8 bytes) cut off by the deadline
  after 0 bytes, with the transport closed and \<open>operation_aborted\<close> reported, delivers
  \<open>FAILED_OPERATION\<close>.
\<close>

theorem asyncWrite_deadline_short_write:
  "run (asyncWrite [0x70, 0x69, 0x6e, 0x67] 100 (\<lambda>code. Invoke code () Return))
       (\<lambda>n. 0) (\<lambda>n. \<lparr>opError = operation_aborted, is_open = False, transferred = []\<rparr>)
     = [Started (Write [0, 0, 0, 4, 0x70, 0x69, 0x6e, 0x67]) 100, Called FAILED_OPERATION ()]"
  by (simp add: run_def asyncWrite_def steps_timedAsyncOperation getSize_def getBuffers_def
        toBigEndian_def HEADER_SIZE_def)

section \<open>Synchronous timed operation\<close>

lemma timedOperation_always_throws: "timedOperation c = Inl FailedOperation"
  by (simp add: timedOperation_def is_error_def)

text \<open>
  C3. \<open>timedOperation\<close> returns normally when the awaited operation completed with no error
  and the transport is open, throws \<open>Aborted\<close> exactly when the completion error is
  \<open>operation_aborted\<close>, and \<open>FailedOperation\<close> otherwise. Since \<open>closeableError\<close> keeps its
  initial value \<open>would_block\<close>, the call throws \<open>FailedOperation\<close> on a completion with no
  error and an open transport.
\<close>

theorem timedOperation_success_throws:
  "timedOperation \<lparr>opError = no_error, is_open = True, transferred = []\<rparr> = Inl FailedOperation"
  by (simp add: timedOperation_def is_error_def)

section \<open>Framed read\<close>

text \<open>
  C5. When the header phase of \<open>asyncRead\<close> delivers exactly 4 bytes with no error and
  the parsed length is 0, the handler is invoked at once with success and an empty payload,
  and no second read is issued.
\<close>

theorem asyncRead_empty_payload:
  assumes "opError (io 0) = no_error" and "is_open (io 0)"
    and "length (transferred (io 0)) = 4"
    and "fst (numDataBytesFromBuffer (buffer @ transferred (io 0))) = 0"
  shows "run (asyncRead buffer timeout (\<lambda>code data. Invoke code data Return)) clk io
           = [Clock (clk 0), Started (ReadExactly 4) timeout, Called SUCCESS []]"
  using assms
  by (simp add: run_def asyncRead_def steps_timedAsyncOperation failed_def HEADER_SIZE_def
        case_prod_beta)

theorem asyncRead_empty_payload_witness:
  "run (asyncRead [] 100 (\<lambda>code data. Invoke code data Return)) (\<lambda>n. 0)
       (\<lambda>n. \<lparr>opError = no_error, is_open = True, transferred = [0, 0, 0, 0]\<rparr>)
     = [Clock 0, Started (ReadExactly 4) 100, Called SUCCESS []]"
  by (rule asyncRead_empty_payload)
     (simp_all add: numDataBytesFromBuffer_def stringFromStreambuf_def fromBigEndian_def)

text \<open>
  C6. The timeout of the body phase of \<open>asyncRead\<close> is the total timeout minus the time
  elapsed since the entry of \<open>asyncRead\<close>. The clock is read once on entry, before the
  header read is submitted (\<open>clk 0\<close>), and once more when the header has been read
  (\<open>clk 1\<close>); the body read gets \<open>timeout - (clk 1 - clk 0)\<close>, in the arithmetic of
  \<open>Duration\<close>.
\<close>

theorem asyncRead_body_timeout:
  assumes "opError (io 0) = no_error" and "is_open (io 0)"
    and "length (transferred (io 0)) = 4"
    and "fst (numDataBytesFromBuffer (buffer @ transferred (io 0))) = N" and "N \<noteq> 0"
  shows "take 4 (run (asyncRead buffer timeout handler) clk io)
           = [Clock (clk 0), Started (ReadExactly 4) timeout,
              Clock (clk 1), Started (ReadExactly (unat N)) (timeout - (clk 1 - clk 0))]"
  using assms
  by (simp add: run_def asyncRead_def steps_timedAsyncOperation failed_def HEADER_SIZE_def
        case_prod_beta)

theorem asyncRead_body_timeout_witness:
  "take 4 (run (asyncRead [] 100 (\<lambda>code data. Invoke code data Return)) (\<lambda>n. 10 + 7 * of_nat n)
       (\<lambda>n. \<lparr>opError = no_error, is_open = True, transferred = [0, 0, 0, 2]\<rparr>))
     = [Clock 10, Started (ReadExactly 4) 100, Clock 17, Started (ReadExactly 2) 93]"
  using asyncRead_body_timeout
          [where io = "\<lambda>n. \<lparr>opError = no_error, is_open = True, transferred = [0, 0, 0, 2]\<rparr>"
             and buffer = "[]" and N = 2 and timeout = 100
             and handler = "\<lambda>code data. Invoke code data Return" and clk = "\<lambda>n. 10 + 7 * of_nat n"]
  by (simp add: numDataBytesFromBuffer_def stringFromStreambuf_def fromBigEndian_def)

text \<open>
  While the elapsed time and the remaining time stay within 64 bits, the timeout of the
  body phase is the difference of the signed values.
\<close>

lemma asyncRead_body_timeout_signed:
  fixes timeout :: Duration and t0 t1 :: TimePoint
  assumes "- (2 ^ 63) \<le> sint t1 - sint t0" and "sint t1 - sint t0 < 2 ^ 63"
    and "- (2 ^ 63) \<le> sint timeout - (sint t1 - sint t0)"
    and "sint timeout - (sint t1 - sint t0) < 2 ^ 63"
  shows "sint (timeout - (t1 - t0)) = sint timeout - (sint t1 - sint t0)"
  using assms by (simp add: Duration_diff_in_range)

text \<open>
  C7. When a phase of \<open>asyncRead\<close> completes with no error but the wrong byte count (a
  header phase that delivers other than 4 bytes, or a body phase that delivers other than
  the \<open>N\<close> bytes the header announced), the handler is invoked with \<open>INVALID_FRAME\<close> and
  empty data. A phase has no error when its timed operation reports success: the I/O
  reported none and the transport is open.
\<close>

theorem asyncRead_invalid_frame:
  "(opError (io 0) = no_error \<and> is_open (io 0) \<and> length (transferred (io 0)) \<noteq> 4 \<longrightarrow>
      run (asyncRead buffer timeout (\<lambda>code data. Invoke code data Return)) clk io
        = [Clock (clk 0), Started (ReadExactly 4) timeout, Called INVALID_FRAME []]) \<and>
   (opError (io 0) = no_error \<and> is_open (io 0) \<and> length (transferred (io 0)) = 4 \<and>
    fst (numDataBytesFromBuffer (buffer @ transferred (io 0))) = N \<and> N \<noteq> 0 \<and>
    opError (io 1) = no_error \<and> is_open (io 1) \<and> length (transferred (io 1)) \<noteq> unat N \<longrightarrow>
      run (asyncRead buffer timeout (\<lambda>code data. Invoke code data Return)) clk io
        = [Clock (clk 0), Started (ReadExactly 4) timeout,
           Clock (clk 1), Started (ReadExactly (unat N)) (timeout - (clk 1 - clk 0)),
           Called INVALID_FRAME []])"
  by (simp add: run_def asyncRead_def steps_timedAsyncOperation failed_def HEADER_SIZE_def
        case_prod_beta)

theorem asyncRead_invalid_frame_witness:
  "run (asyncRead [] 100 (\<lambda>code data. Invoke code data Return)) (\<lambda>n. 10 + 7 * of_nat n)
       (\<lambda>n. \<lparr>opError = no_error, is_open = True, transferred = [0, 0, 5]\<rparr>)
     = [Clock 10, Started (ReadExactly 4) 100, Called INVALID_FRAME []] \<and>
   run (asyncRead [] 100 (\<lambda>code data. Invoke code data Return)) (\<lambda>n. 10 + 7 * of_nat n)
       (\<lambda>n. if n = 0 then \<lparr>opError = no_error, is_open = True, transferred = [0, 0, 0, 5]\<rparr>
             else \<lparr>opError = no_error, is_open = True, transferred = [0x68, 0x69]\<rparr>)
     = [Clock 10, Started (ReadExactly 4) 100, Clock 17, Started (ReadExactly 5) 93,
        Called INVALID_FRAME []]"
  using asyncRead_invalid_frame
          [where io = "\<lambda>n. \<lparr>opError = no_error, is_open = True, transferred = [0, 0, 5]\<rparr>"
             and buffer = "[]" and timeout = 100 and clk = "\<lambda>n. 10 + 7 * of_nat n" and N = 1]
        asyncRead_invalid_frame
          [where io = "\<lambda>n. if n = 0
                          then \<lparr>opError = no_error, is_open = True, transferred = [0, 0, 0, 5]\<rparr>
                          else \<lparr>opError = no_error, is_open = True, transferred = [0x68, 0x69]\<rparr>"
             and buffer = "[]" and timeout = 100 and clk = "\<lambda>n. 10 + 7 * of_nat n" and N = 5]
  by (simp add: numDataBytesFromBuffer_def stringFromStreambuf_def fromBigEndian_def)

section \<open>The handler is invoked exactly once\<close>

text \<open>
  The count tells bodies apart: a body that returns without a call has none, one that
  calls twice has two.
\<close>

lemma calls_distinguishes:
  "calls (Return :: unit proc) clk io = 0 \<and>
   calls (Invoke SUCCESS () (Invoke SUCCESS () Return)) clk io = 2"
  by (simp add: calls_calls_from calls_from_Invoke calls_from_Return)

lemma calls_timedAsyncOperation:
  assumes "\<And>code ec bs st. calls_from (handler code ec bs) clk io st = 1"
  shows "calls_from (timedAsyncOperation op timeout handler) clk io st = 1"
  by (simp add: timedAsyncOperation_def calls_from_TimedIO calls_from_Return assms Let_def)

lemma calls_asyncWrite:
  assumes "\<And>code st. calls_from (handler code) clk io st = 1"
  shows "calls_from (asyncWrite writeData timeout handler) clk io st = 1"
  unfolding asyncWrite_def Let_def seq_Return
  by (rule calls_timedAsyncOperation) (simp add: assms)

lemma calls_asyncRead:
  assumes "\<And>code data st. calls_from (handler code data) clk io st = 1"
  shows "calls_from (asyncRead buffer timeout handler) clk io st = 1"
  unfolding asyncRead_def calls_from_Now seq_Return
  by (rule calls_timedAsyncOperation)
     (auto simp: Let_def calls_from_Now assms simp del: One_nat_def split: prod.splits
           intro!: calls_timedAsyncOperation)

lemma calls_asyncSend:
  assumes "\<And>code st. calls_from (handler code) clk io st = 1"
  shows "calls_from (asyncSend Encoder message timeout handler) clk io st = 1"
  unfolding asyncSend_def
  by (auto simp: calls_from_Post calls_from_Return assms simp del: One_nat_def
           split: option.splits intro!: calls_asyncWrite)

lemma calls_asyncReceive:
  assumes "\<And>code message st. calls_from (handler code message) clk io st = 1"
  shows "calls_from (asyncReceive Decoder buffer timeout handler) clk io st = 1"
  unfolding asyncReceive_def seq_Return
  by (rule calls_asyncRead) (simp add: assms split: option.splits)

lemma calls_asyncConnect:
  assumes "\<And>code st. calls_from (handler code) clk io st = 1"
  shows "calls_from (asyncConnect host port timeout handler) clk io st = 1"
  unfolding asyncConnect_def seq_Return
  by (rule calls_timedAsyncOperation) (simp add: assms)

lemma calls_asyncCallOperation:
  assumes "\<And>code response st. calls_from (handler code response) clk io st = 1"
  shows "calls_from (asyncCallOperation Encoder Decoder handler request host port timeout)
           clk io st = 1"
  unfolding asyncCallOperation_def calls_from_Now Let_def seq_Return
  by (rule calls_asyncConnect)
     (auto simp: calls_from_Now assms simp del: One_nat_def split: prod.splits
           intro!: calls_asyncSend calls_asyncReceive)

text \<open>
  C4. Every submitted \<open>asyncRead\<close>, \<open>asyncWrite\<close>, \<open>asyncSend\<close>, \<open>asyncReceive\<close> and
  \<open>asyncCallOperation\<close> invokes its user handler exactly once, whatever the clock shows and
  however each I/O completes: with success, with an error, or with the transport closed by
  the deadline or by a cancellation.
\<close>

theorem handler_invoked_exactly_once:
  "calls (asyncRead buffer timeout (\<lambda>code data. Invoke code data Return)) clk io = 1 \<and>
   calls (asyncWrite writeData timeout (\<lambda>code. Invoke code () Return)) clk io = 1 \<and>
   calls (asyncSend Encoder message timeout (\<lambda>code. Invoke code () Return)) clk io = 1 \<and>
   calls (asyncReceive Decoder buffer timeout (\<lambda>code response. Invoke code response Return))
     clk io = 1 \<and>
   calls (asyncCallOperation RequestEncoder Decoder (\<lambda>code response. Invoke code response Return)
            request host port timeout) clk io = 1"
  by (simp add: calls_calls_from calls_asyncRead calls_asyncWrite calls_asyncSend
        calls_asyncReceive calls_asyncCallOperation calls_from_Invoke calls_from_Return)

section \<open>Encoding and decoding failures\<close>

text \<open>
  C8. When the user encoder fails, \<open>asyncSend\<close> and \<open>asyncSendDatagram\<close> only schedule the
  handler on the executor: the submitting call invokes nothing and starts no transport
  I/O, and the handler then runs with \<open>ENCODING\<close>.
\<close>

theorem encode_failure_scheduled:
  assumes "Encoder message = None"
  shows "submit (asyncSend Encoder message timeout (\<lambda>code. Invoke code () Return)) clk
           = [Scheduled] \<and>
         run (asyncSend Encoder message timeout (\<lambda>code. Invoke code () Return)) clk io
           = [Scheduled, Called ENCODING ()] \<and>
         submit (asyncSendDatagram asyncSendTo Encoder message host port timeout
                  (\<lambda>code. Invoke code () Return)) clk = [Scheduled] \<and>
         run (asyncSendDatagram asyncSendTo Encoder message host port timeout
                  (\<lambda>code. Invoke code () Return)) clk io
           = [Scheduled, Called ENCODING ()]"
  using assms by (simp add: run_def submit_def asyncSend_def asyncSendDatagram_def encode_def)

theorem encode_failure_scheduled_witness:
  "submit (asyncSend (\<lambda>m. if m = [] then None else Some m) [] 100 (\<lambda>code. Invoke code () Return))
     (\<lambda>n. 0) = [Scheduled] \<and>
   run (asyncSend (\<lambda>m. if m = [] then None else Some m) [] 100 (\<lambda>code. Invoke code () Return))
     (\<lambda>n. 0) (\<lambda>n. \<lparr>opError = no_error, is_open = True, transferred = []\<rparr>)
     = [Scheduled, Called ENCODING ()] \<and>
   submit (asyncSendDatagram (\<lambda>data host port timeout handler. handler SUCCESS)
            (\<lambda>m. if m = [] then None else Some m) [] ''peer'' 4242 100
            (\<lambda>code. Invoke code () Return)) (\<lambda>n. 0) = [Scheduled] \<and>
   run (asyncSendDatagram (\<lambda>data host port timeout handler. handler SUCCESS)
            (\<lambda>m. if m = [] then None else Some m) [] ''peer'' 4242 100
            (\<lambda>code. Invoke code () Return)) (\<lambda>n. 0)
       (\<lambda>n. \<lparr>opError = no_error, is_open = True, transferred = []\<rparr>)
     = [Scheduled, Called ENCODING ()]"
  by (rule encode_failure_scheduled) simp

text \<open>
  When the read failed and the decoder accepts the empty data it is given, the error of
  the read reaches the handler unchanged.
\<close>

lemma asyncReceive_read_error_forwarded:
  assumes "\<not> is_open (io 0) \<or> opError (io 0) \<noteq> no_error" and "Decoder [] = Some message"
  shows "run (asyncReceive Decoder buffer timeout (\<lambda>code message. Invoke code message Return))
           clk io
     = [Clock (clk 0), Started (ReadExactly HEADER_SIZE) timeout,
        Called (if \<not> is_open (io 0) then ABORTED else FAILED_OPERATION) (Some message)]"
  using assms
  by (auto simp add: run_def asyncReceive_def asyncRead_def steps_timedAsyncOperation failed_def
        decode_def)

text \<open>\<open>Decoder<std::string>\<close> never fails, so with it every read error is forwarded.\<close>

lemma asyncReceive_string_read_error_forwarded:
  assumes "\<not> is_open (io 0) \<or> opError (io 0) \<noteq> no_error"
  shows "run (asyncReceive Decoder_string buffer timeout
                (\<lambda>code message. Invoke code message Return)) clk io
     = [Clock (clk 0), Started (ReadExactly HEADER_SIZE) timeout,
        Called (if \<not> is_open (io 0) then ABORTED else FAILED_OPERATION) (Some [])]"
  using assms by (intro asyncReceive_read_error_forwarded) (simp_all add: Decoder_string_def)

text \<open>
  The datagram variant decodes in the same place: whatever error the receive reported, a
  decoder that fails on the data makes the handler receive \<open>DECODING\<close>.
\<close>

lemma asyncReceiveDatagram_decodes_first:
  assumes "Decoder data = None"
  shows "asyncReceiveDatagram (\<lambda>buffer timeout h. h error data senderHost senderPort)
           Decoder buffer timeout handler
         = handler DECODING None senderHost senderPort"
  using assms by (simp add: asyncReceiveDatagram_def decode_def)

text \<open>
  C9. \<open>asyncReceive\<close> reports \<open>DECODING\<close> only after a successful read; a read that
  completes with an error has its error code forwarded to the handler unchanged. The
  handler of \<open>asyncReceive\<close> decodes before it looks at the error code, and a failed read
  hands it empty data: with a decoder that rejects the empty string, a read ended by the
  deadline delivers \<open>DECODING\<close> in place of \<open>ABORTED\<close>.
\<close>

theorem asyncReceive_read_error_masked:
  "run (asyncReceive (\<lambda>data. if data = [] then None else Some data) [] 100
          (\<lambda>code message. Invoke code message Return))
       (\<lambda>n. 0) (\<lambda>n. \<lparr>opError = operation_aborted, is_open = False, transferred = []\<rparr>)
     = [Clock 0, Started (ReadExactly 4) 100, Called DECODING None]"
  by (simp add: run_def asyncReceive_def asyncRead_def steps_timedAsyncOperation failed_def
        decode_def HEADER_SIZE_def)

section \<open>The Closer guard\<close>













text \<open>
  Outside a chain: a guard that is move constructed from a guard already moved from is
  alive, since the move constructor leaves \<open>alive\<close> at its initialiser. Guards 1 and 2 are
  both move constructed from guard 0, and transport 7 is closed twice.
\<close>

lemma Closer_moved_twice_closes_twice:
  "map_option close_calls
     (exec_all [Construct 0 7, MoveConstruct 1 0, MoveConstruct 2 0,
                Destroy 2, Destroy 1, Destroy 0] empty_scope) = Some [7, 7]"
  by (simp add: empty_scope_def close_def)






end
